theory Spec2Isabelle
  imports Main
begin

section \<open>Common infrastructure of the abstract syntax tree (syntax.hpp)\<close>

subsection \<open>Kinds, locations, pointers\<close>

text \<open>The enumeration \<^verbatim>\<open>Node::Kind\<close>, in the order of the source.\<close>

datatype Kind =
  Program_node
| Variable_node
| Abstraction_node
| Application_node
| Definition_node
| Evaluation_node

text \<open>
  Modelled from the spec: the type \<^verbatim>\<open>Location\<close> of location.hpp, which is included by
  syntax.hpp and not part of the sources at hand. The spec calls it an opaque
  source-position tag whose default is "unknown"; \<^verbatim>\<open>loc{}\<close> in the constructor of
  \<^verbatim>\<open>Node\<close> yields that default.
\<close>

datatype Location = Unknown_location | Source_location nat nat

text \<open>
  A pointer is either null or an address. Nodes and symbols live in stores that map
  an address to the object found there.
\<close>

type_synonym addr = nat
type_synonym ptr = "addr option"

abbreviation nullptr :: ptr where
  "nullptr \<equiv> None"

text \<open>
  Dereferencing a null pointer or an address that holds no object is undefined in the
  source; the model makes it a value.
\<close>

datatype fault = Invalid_pointer

subsection \<open>The base class Node and the language interface classes\<close>

record Node =
  kind :: Kind
  loc :: Location

text \<open>\<^verbatim>\<open>Node(Kind k) : kind{k}, loc{}\<close>\<close>

definition Node :: "Kind \<Rightarrow> Node" where
  "Node k = \<lparr>kind = k, loc = Unknown_location\<rparr>"

text \<open>
  The interface classes add no data member: an object of such a class is its
  \<^verbatim>\<open>Node\<close> subobject, and each constructor passes a kind to its base.
\<close>

definition Term :: "Kind \<Rightarrow> Node" where
  "Term k = Node k"

definition Variable :: Node where
  "Variable = Term Variable_node"

definition Application :: Node where
  "Application = Term Application_node"

definition Abstraction :: Node where
  "Abstraction = Term Abstraction_node"

definition Statement :: "Kind \<Rightarrow> Node" where
  "Statement k = Node k"

definition Definition :: Node where
  "Definition = Statement Definition_node"

definition Evaluation :: Node where
  "Evaluation = Statement Evaluation_node"

definition Program :: Node where
  "Program = Node Program_node"

subsection \<open>The class hierarchy and the dynamic type query\<close>

text \<open>
  Every class of the file that derives from \<^verbatim>\<open>Node\<close>, the instances of the arity
  templates included (\<^verbatim>\<open>Nullary_node<Variable>\<close> is \<open>C_Nullary_node_Variable\<close>).
\<close>

datatype Class =
  C_Node
| C_Term
| C_Variable
| C_Application
| C_Abstraction
| C_Statement
| C_Definition
| C_Evaluation
| C_Program
| C_Nullary_node_Variable
| C_Binary_node_Abstraction
| C_Binary_node_Application
| C_Binary_node_Definition
| C_Unary_node_Evaluation
| C_Multi_node_Program_Statement
| C_Variable_impl
| C_Abstraction_impl
| C_Application_impl
| C_Definition_impl
| C_Evaluation_impl
| C_Program_impl

text \<open>The direct base of a class, read off each \<^verbatim>\<open>struct X : Y\<close>.\<close>

fun base_of :: "Class \<Rightarrow> Class option" where
  "base_of C_Node = None"
| "base_of C_Term = Some C_Node"
| "base_of C_Variable = Some C_Term"
| "base_of C_Application = Some C_Term"
| "base_of C_Abstraction = Some C_Term"
| "base_of C_Statement = Some C_Node"
| "base_of C_Definition = Some C_Statement"
| "base_of C_Evaluation = Some C_Statement"
| "base_of C_Program = Some C_Node"
| "base_of C_Nullary_node_Variable = Some C_Variable"
| "base_of C_Binary_node_Abstraction = Some C_Abstraction"
| "base_of C_Binary_node_Application = Some C_Application"
| "base_of C_Binary_node_Definition = Some C_Definition"
| "base_of C_Unary_node_Evaluation = Some C_Evaluation"
| "base_of C_Multi_node_Program_Statement = Some C_Program"
| "base_of C_Variable_impl = Some C_Nullary_node_Variable"
| "base_of C_Abstraction_impl = Some C_Binary_node_Abstraction"
| "base_of C_Application_impl = Some C_Binary_node_Application"
| "base_of C_Definition_impl = Some C_Binary_node_Definition"
| "base_of C_Evaluation_impl = Some C_Unary_node_Evaluation"
| "base_of C_Program_impl = Some C_Multi_node_Program_Statement"

text \<open>The number of bases above a class: the measure for walking up the hierarchy.\<close>

fun inheritance_depth :: "Class \<Rightarrow> nat" where
  "inheritance_depth C_Node = 0"
| "inheritance_depth C_Term = 1"
| "inheritance_depth C_Statement = 1"
| "inheritance_depth C_Program = 1"
| "inheritance_depth C_Variable = 2"
| "inheritance_depth C_Application = 2"
| "inheritance_depth C_Abstraction = 2"
| "inheritance_depth C_Definition = 2"
| "inheritance_depth C_Evaluation = 2"
| "inheritance_depth C_Multi_node_Program_Statement = 2"
| "inheritance_depth C_Program_impl = 3"
| "inheritance_depth C_Nullary_node_Variable = 3"
| "inheritance_depth C_Binary_node_Abstraction = 3"
| "inheritance_depth C_Binary_node_Application = 3"
| "inheritance_depth C_Binary_node_Definition = 3"
| "inheritance_depth C_Unary_node_Evaluation = 3"
| "inheritance_depth C_Variable_impl = 4"
| "inheritance_depth C_Abstraction_impl = 4"
| "inheritance_depth C_Application_impl = 4"
| "inheritance_depth C_Definition_impl = 4"
| "inheritance_depth C_Evaluation_impl = 4"

lemma base_of_depth: "base_of c = Some b \<Longrightarrow> inheritance_depth b < inheritance_depth c"
  by (cases c) auto

text \<open>
  \<open>derives c t\<close>: class \<open>c\<close> is \<open>t\<close> or has \<open>t\<close> among its bases. This is the test
  \<^verbatim>\<open>dynamic_cast<T*>\<close> makes on the dynamic type of its operand (inheritance is
  single and public throughout the file).
\<close>

function derives :: "Class \<Rightarrow> Class \<Rightarrow> bool" where
  "derives c t =
     (if c = t then True
      else (case base_of c of None \<Rightarrow> False | Some b \<Rightarrow> derives b t))"
  by pat_completeness auto
termination
  by (relation "measure (\<lambda>(c, t). inheritance_depth c)") (auto simp: base_of_depth)

declare derives.simps [simp del]

subsection \<open>Arity shapes\<close>

text \<open>
  Each shape is a template over its base class; the model takes the base subobject
  that \<^verbatim>\<open>Base()\<close> constructs as an argument. The member \<^verbatim>\<open>nodes\<close> is the array (or
  vector) of child pointers. An iterator \<^verbatim>\<open>Node* const*\<close> into it is the offset from
  its first element, so \<^verbatim>\<open>nodes\<close> is offset \<open>0\<close> and \<^verbatim>\<open>nodes + 1\<close> is offset \<open>1\<close>.
\<close>

type_synonym iterator = nat

text \<open>
  The pointers read by \<^verbatim>\<open>for (p = f; p != l; ++p) *p\<close> over the array \<open>arr\<close>.
\<close>

definition range_elems :: "ptr list \<Rightarrow> iterator \<Rightarrow> iterator \<Rightarrow> ptr list" where
  "range_elems arr f l = map (\<lambda>i. arr ! i) [f..<l]"

record 'b Nullary_node =
  nullary_base :: 'b
  nodes0 :: "ptr list"

definition Nullary_node :: "'b \<Rightarrow> 'b Nullary_node" where
  "Nullary_node b = \<lparr>nullary_base = b, nodes0 = []\<rparr>"

definition Nullary_begin :: "'b Nullary_node \<Rightarrow> iterator" where
  "Nullary_begin n = 0"

definition Nullary_end :: "'b Nullary_node \<Rightarrow> iterator" where
  "Nullary_end n = 0"

record 'b Unary_node =
  unary_base :: 'b
  nodes1 :: "ptr list"

definition Unary_node :: "'b \<Rightarrow> ptr \<Rightarrow> 'b Unary_node" where
  "Unary_node b child = \<lparr>unary_base = b, nodes1 = [child]\<rparr>"

definition Unary_child :: "'b Unary_node \<Rightarrow> ptr" where
  "Unary_child n = nodes1 n ! 0"

definition Unary_first :: "'b Unary_node \<Rightarrow> ptr" where
  "Unary_first n = nodes1 n ! 0"

definition Unary_begin :: "'b Unary_node \<Rightarrow> iterator" where
  "Unary_begin n = 0"

definition Unary_end :: "'b Unary_node \<Rightarrow> iterator" where
  "Unary_end n = 0 + 1"

record 'b Binary_node =
  binary_base :: 'b
  nodes2 :: "ptr list"

definition Binary_node :: "'b \<Rightarrow> ptr \<Rightarrow> ptr \<Rightarrow> 'b Binary_node" where
  "Binary_node b left right = \<lparr>binary_base = b, nodes2 = [left, right]\<rparr>"

definition Binary_left :: "'b Binary_node \<Rightarrow> ptr" where
  "Binary_left n = nodes2 n ! 0"

definition Binary_right :: "'b Binary_node \<Rightarrow> ptr" where
  "Binary_right n = nodes2 n ! 1"

definition Binary_first :: "'b Binary_node \<Rightarrow> ptr" where
  "Binary_first n = nodes2 n ! 0"

definition Binary_second :: "'b Binary_node \<Rightarrow> ptr" where
  "Binary_second n = nodes2 n ! 1"

definition Binary_begin :: "'b Binary_node \<Rightarrow> iterator" where
  "Binary_begin n = 0"

definition Binary_end :: "'b Binary_node \<Rightarrow> iterator" where
  "Binary_end n = 0 + 2"

text \<open>
  \<^verbatim>\<open>Multi_node\<close> keeps a \<^verbatim>\<open>std::vector<T*>\<close>. It has a default constructor, one from an
  iterator pair, and two that delegate to the latter (from a range and from an
  initializer list); the model gives the sequence those iterators run over.
\<close>

record 'b Multi_node =
  multi_base :: 'b
  nodesN :: "ptr list"

definition Multi_node :: "'b \<Rightarrow> 'b Multi_node" where
  "Multi_node b = \<lparr>multi_base = b, nodesN = []\<rparr>"

definition Multi_node_iter :: "'b \<Rightarrow> ptr list \<Rightarrow> 'b Multi_node" where
  "Multi_node_iter b first_last = \<lparr>multi_base = b, nodesN = first_last\<rparr>"

definition Multi_node_range :: "'b \<Rightarrow> ptr list \<Rightarrow> 'b Multi_node" where
  "Multi_node_range b r = Multi_node_iter b r"

definition Multi_node_list :: "'b \<Rightarrow> ptr list \<Rightarrow> 'b Multi_node" where
  "Multi_node_list b l = Multi_node_iter b l"

text \<open>\<^verbatim>\<open>void add_node(T* node) { nodes.push_back(node); }\<close>\<close>

definition add_node :: "'b Multi_node \<Rightarrow> ptr \<Rightarrow> 'b Multi_node" where
  "add_node n node = n\<lparr>nodesN := nodesN n @ [node]\<rparr>"

definition Multi_begin :: "'b Multi_node \<Rightarrow> iterator" where
  "Multi_begin n = 0"

definition Multi_end :: "'b Multi_node \<Rightarrow> iterator" where
  "Multi_end n = 0 + length (nodesN n)"

text \<open>The child range \<^verbatim>\<open>[begin(), end())\<close> of a node of each shape.\<close>

definition Nullary_children :: "'b Nullary_node \<Rightarrow> ptr list" where
  "Nullary_children n = range_elems (nodes0 n) (Nullary_begin n) (Nullary_end n)"

definition Unary_children :: "'b Unary_node \<Rightarrow> ptr list" where
  "Unary_children n = range_elems (nodes1 n) (Unary_begin n) (Unary_end n)"

definition Binary_children :: "'b Binary_node \<Rightarrow> ptr list" where
  "Binary_children n = range_elems (nodes2 n) (Binary_begin n) (Binary_end n)"

definition Multi_children :: "'b Multi_node \<Rightarrow> ptr list" where
  "Multi_children n = range_elems (nodesN n) (Multi_begin n) (Multi_end n)"

text \<open>
  \<^verbatim>\<open>Node_range<T>\<close> keeps two iterators and hands them out again, retyped.
\<close>

record Node_range =
  range_first :: iterator
  range_last :: iterator

definition Node_range :: "iterator \<Rightarrow> iterator \<Rightarrow> Node_range" where
  "Node_range f l = \<lparr>range_first = f, range_last = l\<rparr>"

definition Node_range_begin :: "Node_range \<Rightarrow> iterator" where
  "Node_range_begin r = range_first r"

definition Node_range_end :: "Node_range \<Rightarrow> iterator" where
  "Node_range_end r = range_last r"

section \<open>Language implementation\<close>

text \<open>
  Modelled from the spec: the type \<^verbatim>\<open>Symbol\<close> of symbol.hpp, which is not part of the
  sources at hand. The source reads its member \<^verbatim>\<open>spelling\<close>, a \<^verbatim>\<open>String\<close>; the spec
  calls it the name text of the symbol.
\<close>

record Symbol =
  spelling :: string

type_synonym symbols = "addr \<rightharpoonup> Symbol"

record Variable_impl =
  variable_node :: "Node Nullary_node"
  sym :: ptr

type_synonym Abstraction_impl = "Node Binary_node"
type_synonym Application_impl = "Node Binary_node"
type_synonym Definition_impl = "Node Binary_node"
type_synonym Evaluation_impl = "Node Unary_node"
type_synonym Program_impl = "Node Multi_node"

text \<open>An object of the store is an object of one of the six concrete classes.\<close>

datatype Object =
  Obj_Variable Variable_impl
| Obj_Abstraction Abstraction_impl
| Obj_Application Application_impl
| Obj_Definition Definition_impl
| Obj_Evaluation Evaluation_impl
| Obj_Program Program_impl

type_synonym heap = "addr \<rightharpoonup> Object"

fun dynamic_type :: "Object \<Rightarrow> Class" where
  "dynamic_type (Obj_Variable v) = C_Variable_impl"
| "dynamic_type (Obj_Abstraction n) = C_Abstraction_impl"
| "dynamic_type (Obj_Application n) = C_Application_impl"
| "dynamic_type (Obj_Definition n) = C_Definition_impl"
| "dynamic_type (Obj_Evaluation n) = C_Evaluation_impl"
| "dynamic_type (Obj_Program n) = C_Program_impl"

text \<open>The \<^verbatim>\<open>Node\<close> subobject of an object, and the member \<^verbatim>\<open>kind\<close> read through it.\<close>

fun Node_of :: "Object \<Rightarrow> Node" where
  "Node_of (Obj_Variable v) = nullary_base (variable_node v)"
| "Node_of (Obj_Abstraction n) = binary_base n"
| "Node_of (Obj_Application n) = binary_base n"
| "Node_of (Obj_Definition n) = binary_base n"
| "Node_of (Obj_Evaluation n) = unary_base n"
| "Node_of (Obj_Program n) = multi_base n"

text \<open>The virtual \<^verbatim>\<open>begin()\<close> and \<^verbatim>\<open>end()\<close>, and the array they point into.\<close>

fun Node_nodes :: "Object \<Rightarrow> ptr list" where
  "Node_nodes (Obj_Variable v) = nodes0 (variable_node v)"
| "Node_nodes (Obj_Abstraction n) = nodes2 n"
| "Node_nodes (Obj_Application n) = nodes2 n"
| "Node_nodes (Obj_Definition n) = nodes2 n"
| "Node_nodes (Obj_Evaluation n) = nodes1 n"
| "Node_nodes (Obj_Program n) = nodesN n"

fun Node_begin :: "Object \<Rightarrow> iterator" where
  "Node_begin (Obj_Variable v) = Nullary_begin (variable_node v)"
| "Node_begin (Obj_Abstraction n) = Binary_begin n"
| "Node_begin (Obj_Application n) = Binary_begin n"
| "Node_begin (Obj_Definition n) = Binary_begin n"
| "Node_begin (Obj_Evaluation n) = Unary_begin n"
| "Node_begin (Obj_Program n) = Multi_begin n"

fun Node_end :: "Object \<Rightarrow> iterator" where
  "Node_end (Obj_Variable v) = Nullary_end (variable_node v)"
| "Node_end (Obj_Abstraction n) = Binary_end n"
| "Node_end (Obj_Application n) = Binary_end n"
| "Node_end (Obj_Definition n) = Binary_end n"
| "Node_end (Obj_Evaluation n) = Unary_end n"
| "Node_end (Obj_Program n) = Multi_end n"

definition Node_children :: "Object \<Rightarrow> ptr list" where
  "Node_children obj = range_elems (Node_nodes obj) (Node_begin obj) (Node_end obj)"

subsection \<open>as and is\<close>

text \<open>
  \<^verbatim>\<open>as<T>(node)\<close> is \<^verbatim>\<open>dynamic_cast<T*>(node)\<close>: null for a null operand, the operand
  itself when the dynamic type of the object it points to derives from \<open>T\<close>, null
  otherwise. The operand is a pointer to an object of the store; one that points to no
  object is a fault.
\<close>

definition as :: "heap \<Rightarrow> Class \<Rightarrow> ptr \<Rightarrow> fault + ptr" where
  "as h T node =
     (case node of
        None \<Rightarrow> Inr nullptr
      | Some a \<Rightarrow>
          (case h a of
             None \<Rightarrow> Inl Invalid_pointer
           | Some obj \<Rightarrow> if derives (dynamic_type obj) T then Inr (Some a) else Inr nullptr))"

text \<open>\<^verbatim>\<open>return as<T>(node) != nullptr;\<close>\<close>

definition is_T :: "heap \<Rightarrow> Class \<Rightarrow> ptr \<Rightarrow> fault + bool" where
  "is_T h T node =
     (case as h T node of Inl f \<Rightarrow> Inl f | Inr p \<Rightarrow> Inr (p \<noteq> nullptr))"

subsection \<open>The concrete node classes\<close>

definition Variable_impl :: "ptr \<Rightarrow> Variable_impl" where
  "Variable_impl s = \<lparr>variable_node = Nullary_node Variable, sym = s\<rparr>"

definition Variable_impl_symbol :: "Variable_impl \<Rightarrow> ptr" where
  "Variable_impl_symbol v = sym v"

text \<open>\<^verbatim>\<open>return sym->spelling;\<close>\<close>

definition Variable_impl_name :: "symbols \<Rightarrow> Variable_impl \<Rightarrow> fault + string" where
  "Variable_impl_name syms v =
     (case sym v of
        None \<Rightarrow> Inl Invalid_pointer
      | Some a \<Rightarrow> (case syms a of None \<Rightarrow> Inl Invalid_pointer | Some s \<Rightarrow> Inr (spelling s)))"

definition Abstraction_impl :: "ptr \<Rightarrow> ptr \<Rightarrow> Abstraction_impl" where
  "Abstraction_impl var term = Binary_node Abstraction var term"

text \<open>\<^verbatim>\<open>static_cast\<close> along single inheritance leaves the pointer as it is.\<close>

definition Abstraction_impl_var :: "Abstraction_impl \<Rightarrow> ptr" where
  "Abstraction_impl_var n = nodes2 n ! 0"

definition Abstraction_impl_term :: "Abstraction_impl \<Rightarrow> ptr" where
  "Abstraction_impl_term n = nodes2 n ! 1"

definition Application_impl :: "ptr \<Rightarrow> ptr \<Rightarrow> Application_impl" where
  "Application_impl left right = Binary_node Application left right"

definition Application_impl_func :: "Application_impl \<Rightarrow> ptr" where
  "Application_impl_func n = nodes2 n ! 0"

definition Application_impl_arg :: "Application_impl \<Rightarrow> ptr" where
  "Application_impl_arg n = nodes2 n ! 1"

definition Definition_impl :: "ptr \<Rightarrow> ptr \<Rightarrow> Definition_impl" where
  "Definition_impl var term = Binary_node Definition var term"

definition Definition_impl_var :: "heap \<Rightarrow> Definition_impl \<Rightarrow> fault + ptr" where
  "Definition_impl_var h n = as h C_Variable (Binary_first n)"

definition Definition_impl_def :: "heap \<Rightarrow> Definition_impl \<Rightarrow> fault + ptr" where
  "Definition_impl_def h n = as h C_Term (Binary_second n)"

definition Evaluation_impl :: "ptr \<Rightarrow> Evaluation_impl" where
  "Evaluation_impl term = Unary_node Evaluation term"

definition Evaluation_impl_term :: "heap \<Rightarrow> Evaluation_impl \<Rightarrow> fault + ptr" where
  "Evaluation_impl_term h n = as h C_Term (Unary_first n)"

definition Program_impl :: Program_impl where
  "Program_impl = Multi_node Program"

definition add_statement :: "Program_impl \<Rightarrow> ptr \<Rightarrow> Program_impl" where
  "add_statement p stmt = add_node p stmt"

definition statements :: "Program_impl \<Rightarrow> Node_range" where
  "statements p = Node_range (Multi_begin p) (Multi_end p)"

text \<open>
  A pointer that may stand where the source declares a \<^verbatim>\<open>T*\<close>: null, or the address of
  an object of the store whose class derives from \<open>T\<close>.
\<close>

definition valid_ptr :: "heap \<Rightarrow> Class \<Rightarrow> ptr \<Rightarrow> bool" where
  "valid_ptr h T p =
     (case p of
        None \<Rightarrow> True
      | Some a \<Rightarrow> (case h a of None \<Rightarrow> False | Some obj \<Rightarrow> derives (dynamic_type obj) T))"

text \<open>
  The elements a caller reads from a \<^verbatim>\<open>Node_range\<close> whose iterators point into \<open>arr\<close>.
\<close>

definition Node_range_elems :: "ptr list \<Rightarrow> Node_range \<Rightarrow> ptr list" where
  "Node_range_elems arr r = range_elems arr (Node_range_begin r) (Node_range_end r)"

section \<open>Visitor\<close>

text \<open>The nine virtual member functions that \<^verbatim>\<open>struct Visitor\<close> declares.\<close>

datatype Visit_op =
  Visit_node
| Visit_program
| Visit_statement
| Visit_definition
| Visit_evaluation
| Visit_term
| Visit_variable
| Visit_abstraction
| Visit_application

text \<open>
  Modelled from the spec: the bodies of the \<^verbatim>\<open>accept\<close> members and of the members of
  \<^verbatim>\<open>Visitor\<close>, which syntax.hpp declares and does not define. By the spec, \<^verbatim>\<open>accept\<close>
  on a concrete node invokes the single most specific visit operation for its kind.
\<close>

fun accept_op :: "Object \<Rightarrow> Visit_op" where
  "accept_op (Obj_Variable v) = Visit_variable"
| "accept_op (Obj_Abstraction n) = Visit_abstraction"
| "accept_op (Obj_Application n) = Visit_application"
| "accept_op (Obj_Definition n) = Visit_definition"
| "accept_op (Obj_Evaluation n) = Visit_evaluation"
| "accept_op (Obj_Program n) = Visit_program"

text \<open>
  Modelled from the spec: a visitor that walks by default. It carries a state \<open>'s\<close>;
  its visit operation \<open>op\<close>, run on an object, first does the visitor's own work (the
  function below) and then what the base class does: it visits the direct children
  of the node, first to last, each through the child's \<^verbatim>\<open>accept\<close>. The plain
  \<^verbatim>\<open>Visitor\<close> is the visitor whose own work changes nothing.
\<close>

type_synonym 's Visitor = "Visit_op \<Rightarrow> Object \<Rightarrow> 's \<Rightarrow> 's"

text \<open>
  Modelled from the spec: \<open>accept\<close> is \<^verbatim>\<open>node->accept(vis)\<close>, which selects the visit
  operation of the node's class; \<open>visit\<close> is a visit operation \<open>op\<close> run on an object,
  the same for each of the nine: the visitor's own work, then the walk over the direct
  children; \<open>visit_children\<close> is that walk, first child to last, each child through its
  \<^verbatim>\<open>accept\<close>. The spec leaves a cyclic tree undefined, so the walk takes fuel and \<open>None\<close>
  is a walk that has not finished; calling \<^verbatim>\<open>accept\<close> through a pointer to no object
  is a fault, and a fault ends the walk.
\<close>

fun accept :: "nat \<Rightarrow> 's Visitor \<Rightarrow> heap \<Rightarrow> ptr \<Rightarrow> 's \<Rightarrow> (fault + 's) option"
  and visit ::
    "nat \<Rightarrow> 's Visitor \<Rightarrow> heap \<Rightarrow> Visit_op \<Rightarrow> Object \<Rightarrow> 's \<Rightarrow> (fault + 's) option"
  and visit_children ::
    "nat \<Rightarrow> 's Visitor \<Rightarrow> heap \<Rightarrow> ptr list \<Rightarrow> 's \<Rightarrow> (fault + 's) option"
where
  "accept 0 vis h node s = None"
| "accept (Suc fuel) vis h node s =
     (case node of
        None \<Rightarrow> Some (Inl Invalid_pointer)
      | Some a \<Rightarrow>
          (case h a of
             None \<Rightarrow> Some (Inl Invalid_pointer)
           | Some obj \<Rightarrow> visit fuel vis h (accept_op obj) obj s))"
| "visit fuel vis h op obj s =
     visit_children fuel vis h (Node_children obj) (vis op obj s)"
| "visit_children fuel vis h [] s = Some (Inr s)"
| "visit_children fuel vis h (c # cs) s =
     (case accept fuel vis h c s of
        Some (Inr s') \<Rightarrow> visit_children fuel vis h cs s'
      | r \<Rightarrow> r)"





subsection \<open>The tree below a pointer\<close>






section \<open>Example stores\<close>

text \<open>
  The tree \<^verbatim>\<open>Program[Evaluation(Application(Abstraction(x, x), Variable(x)))]\<close>, built
  with the constructors above: the program at address 1, the evaluation at 2, the
  application at 3, the abstraction at 4, and one \<^verbatim>\<open>Variable_impl\<close> for each
  occurrence of \<open>x\<close> at 5, 6 and 7, all three on the symbol at address 0.
\<close>

definition example_program :: heap where
  "example_program =
     [1 \<mapsto> Obj_Program (add_statement Program_impl (Some 2)),
      2 \<mapsto> Obj_Evaluation (Evaluation_impl (Some 3)),
      3 \<mapsto> Obj_Application (Application_impl (Some 4) (Some 7)),
      4 \<mapsto> Obj_Abstraction (Abstraction_impl (Some 5) (Some 6)),
      5 \<mapsto> Obj_Variable (Variable_impl (Some 0)),
      6 \<mapsto> Obj_Variable (Variable_impl (Some 0)),
      7 \<mapsto> Obj_Variable (Variable_impl (Some 0))]"




definition example_symbols :: symbols where
  "example_symbols = [0 \<mapsto> \<lparr>spelling = ''x''\<rparr>]"

section \<open>Auxiliary facts\<close>

lemma range_elems_all: "range_elems xs 0 (length xs) = xs"
  by (simp add: range_elems_def map_nth)

lemma Multi_children_nodes: "Multi_children n = nodesN n"
  by (simp add: Multi_children_def Multi_begin_def Multi_end_def range_elems_all)

lemma nodesN_add_nodes: "nodesN (foldl add_node n xs) = nodesN n @ xs"
  by (induction xs arbitrary: n) (simp_all add: add_node_def)

lemma multi_base_add_nodes: "multi_base (foldl add_node n xs) = multi_base n"
  by (induction xs arbitrary: n) (simp_all add: add_node_def)

lemma Program_children: "Node_children (Obj_Program p) = nodesN p"
  by (simp add: Node_children_def Multi_begin_def Multi_end_def range_elems_all)

lemma Unary_node_children: "Unary_children (Unary_node b c) = [c]"
  by (simp add: Unary_children_def Unary_node_def Unary_begin_def Unary_end_def
      range_elems_def)

lemma Binary_node_children: "Binary_children (Binary_node b l r) = [l, r]"
  by (simp add: Binary_children_def Binary_node_def Binary_begin_def Binary_end_def
      range_elems_def)

lemma impl_children:
  "Node_children (Obj_Evaluation (Evaluation_impl t)) = [t]"
  "Node_children (Obj_Application (Application_impl f a)) = [f, a]"
  "Node_children (Obj_Abstraction (Abstraction_impl v t)) = [v, t]"
  "Node_children (Obj_Definition (Definition_impl v t)) = [v, t]"
  "Node_children (Obj_Variable (Variable_impl s)) = []"
  by (simp_all add: Node_children_def Evaluation_impl_def Unary_node_def Unary_begin_def
      Unary_end_def Application_impl_def Abstraction_impl_def Definition_impl_def
      Binary_node_def Binary_begin_def Binary_end_def Variable_impl_def Nullary_node_def
      Nullary_begin_def Nullary_end_def range_elems_def)

lemma interface_kinds:
  "kind Program = Program_node"
  "kind Variable = Variable_node"
  "kind Abstraction = Abstraction_node"
  "kind Application = Application_node"
  "kind Definition = Definition_node"
  "kind Evaluation = Evaluation_node"
  by (simp_all add: Program_def Variable_def Abstraction_def Application_def Definition_def
      Evaluation_def Term_def Statement_def Node_def)

lemma impl_kinds:
  "kind (multi_base Program_impl) = Program_node"
  "kind (unary_base (Evaluation_impl t)) = Evaluation_node"
  "kind (binary_base (Application_impl f a)) = Application_node"
  "kind (binary_base (Abstraction_impl v t)) = Abstraction_node"
  "kind (binary_base (Definition_impl v t)) = Definition_node"
  "kind (nullary_base (variable_node (Variable_impl sy))) = Variable_node"
  by (simp_all add: Program_impl_def Multi_node_def Evaluation_impl_def Unary_node_def
      Application_impl_def Abstraction_impl_def Definition_impl_def Binary_node_def
      Variable_impl_def Nullary_node_def interface_kinds)

lemma derives_refl: "derives c c"
  by (simp add: derives.simps)

lemma derives_Application_impl:
  "derives C_Application_impl C_Term"
  "\<not> derives C_Application_impl C_Variable"
  by (simp_all add: derives.simps)

lemma derives_Variable_impl:
  "derives C_Variable_impl C_Variable"
  "derives C_Variable_impl C_Term"
  by (simp_all add: derives.simps)


lemma multi_base_add_statements:
  "multi_base (foldl add_statement p stmts) = multi_base p"
  by (induction stmts arbitrary: p) (simp_all add: add_statement_def add_node_def)



lemma Program_one_statement:
  "Node_children (Obj_Program (add_statement Program_impl stmt)) = [stmt]"
  by (simp add: Program_children add_statement_def add_node_def Program_impl_def
      Multi_node_def)






lemma example_program_short_of_fuel:
  "accept 4 vis example_program (Some 1) s = None"
  by (simp add: eval_nat_numeral example_program_def impl_children Program_one_statement)

section \<open>The claims\<close>

subsection \<open>Child ranges\<close>

text \<open>
  C1, as amended. The child range \<^verbatim>\<open>[begin(), end())\<close> of a node follows its shape:
  it is empty for every \<^verbatim>\<open>Nullary_node\<close> (\<^verbatim>\<open>begin() == end()\<close>); it is the one child
  given to the constructor for a \<^verbatim>\<open>Unary_node\<close>; it is the two children given to the
  constructor, left then right, for a \<^verbatim>\<open>Binary_node\<close>; and for a \<^verbatim>\<open>Multi_node\<close> it is
  the elements given to the constructor followed by the arguments of the
  \<^verbatim>\<open>add_node\<close> calls, in the order of the calls. For a default-constructed
  \<^verbatim>\<open>Multi_node\<close> its length is therefore the number of \<^verbatim>\<open>add_node\<close> calls.
\<close>

theorem C1_child_ranges:
  "Nullary_begin n0 = Nullary_end n0 \<and> Nullary_children n0 = []
   \<and> Unary_children (Unary_node b1 child) = [child]
   \<and> Binary_children (Binary_node b2 left right) = [left, right]
   \<and> Multi_children (foldl add_node (Multi_node bN) added) = added
   \<and> length (Multi_children (foldl add_node (Multi_node bN) added)) = length added
   \<and> Multi_children (foldl add_node (Multi_node_iter bN initial) added) = initial @ added
   \<and> Multi_children (foldl add_node (Multi_node_range bN initial) added) = initial @ added
   \<and> Multi_children (foldl add_node (Multi_node_list bN initial) added) = initial @ added"
  by (simp add: Nullary_begin_def Nullary_end_def Nullary_children_def range_elems_def
      Unary_node_children Binary_node_children Multi_children_nodes nodesN_add_nodes
      Multi_node_def Multi_node_iter_def Multi_node_range_def Multi_node_list_def)

text \<open>
  Against C1 as it is written: a \<^verbatim>\<open>Multi_node\<close> built from the initializer list of two
  pointers has a child range of length two after no call of \<^verbatim>\<open>add_node\<close> at all.
\<close>

theorem C1_counterexample:
  "length (Multi_children (foldl add_node (Multi_node_list Program [Some 1, Some 2]) []))
   \<noteq> length ([] :: ptr list)"
  by (simp add: Multi_children_nodes Multi_node_list_def Multi_node_iter_def)

subsection \<open>The dynamic type query\<close>

text \<open>
  C2. For every pointer \<open>node\<close> and every target class \<open>T\<close>, \<^verbatim>\<open>is<T>(node)\<close> is true
  exactly when \<^verbatim>\<open>as<T>(node)\<close> is a non-null pointer, and a non-null result of
  \<^verbatim>\<open>as<T>(node)\<close> is \<open>node\<close> itself. For an \<^verbatim>\<open>Application\<close> node at address \<open>a\<close>,
  \<^verbatim>\<open>as<Variable>\<close> is null and \<^verbatim>\<open>as<Term>\<close> is the pointer to the node.
\<close>

theorem C2_is_iff_as_present:
  "(is_T h T node = Inr True \<longleftrightarrow> (\<exists>p. as h T node = Inr (Some p)))
   \<and> (\<forall>p. as h T node = Inr (Some p) \<longrightarrow> node = Some p)
   \<and> (h a = Some (Obj_Application A) \<longrightarrow>
        as h C_Variable (Some a) = Inr nullptr \<and> is_T h C_Variable (Some a) = Inr False
        \<and> as h C_Term (Some a) = Inr (Some a) \<and> is_T h C_Term (Some a) = Inr True)"
  by (auto simp: is_T_def as_def derives_Application_impl
      split: option.splits sum.splits if_splits)

text \<open>The application node at address 3 of the example store.\<close>

theorem C2_witness:
  "example_program 3 = Some (Obj_Application (Application_impl (Some 4) (Some 7)))
   \<and> as example_program C_Variable (Some 3) = Inr nullptr
   \<and> is_T example_program C_Variable (Some 3) = Inr False
   \<and> as example_program C_Term (Some 3) = Inr (Some 3)
   \<and> is_T example_program C_Term (Some 3) = Inr True
   \<and> as example_program C_Application (Some 3) = Inr (Some 3)
   \<and> is_T example_program C_Application (Some 3) = Inr True"
proof -
  have h: "example_program 3 = Some (Obj_Application (Application_impl (Some 4) (Some 7)))"
    by (simp add: example_program_def)
  have p: "as example_program C_Application (Some 3) = Inr (Some 3)"
    by (simp add: as_def h derives.simps)
  from h p show ?thesis
    using C2_is_iff_as_present [of example_program C_Application "Some 3" 3
        "Application_impl (Some 4) (Some 7)"]
    by simp
qed

text \<open>
  C9. The query tolerates a null operand: for every target class \<open>T\<close>, \<^verbatim>\<open>as<T>\<close> of
  the null pointer is the null pointer and \<^verbatim>\<open>is<T>\<close> of it is false; neither is a
  fault, whatever the store holds.
\<close>

theorem C9_query_tolerates_null:
  "as h T nullptr = Inr nullptr \<and> is_T h T nullptr = Inr False"
  by (simp add: as_def is_T_def)

subsection \<open>Construction\<close>

text \<open>
  C3, as amended. The constructors of \<^verbatim>\<open>Unary_node\<close> and \<^verbatim>\<open>Binary_node\<close> check nothing:
  they always produce a node, whose slots and child range hold the pointers exactly as
  given. The range of the new node has a null element exactly when a null pointer was
  passed in.
\<close>

theorem C3_constructors_store_children_unchecked:
  "Unary_child (Unary_node b1 child) = child
   \<and> Unary_children (Unary_node b1 child) = [child]
   \<and> (nullptr \<in> set (Unary_children (Unary_node b1 child)) \<longleftrightarrow> child = nullptr)
   \<and> Binary_left (Binary_node b2 left right) = left
   \<and> Binary_right (Binary_node b2 left right) = right
   \<and> Binary_children (Binary_node b2 left right) = [left, right]
   \<and> (nullptr \<in> set (Binary_children (Binary_node b2 left right))
        \<longleftrightarrow> left = nullptr \<or> right = nullptr)"
proof -
  have slots: "Unary_child (Unary_node b1 child) = child"
    "Binary_left (Binary_node b2 left right) = left"
    "Binary_right (Binary_node b2 left right) = right"
    by (simp_all add: Unary_child_def Binary_left_def Binary_right_def Unary_node_def
        Binary_node_def)
  have "nullptr \<in> set [left, right] \<longleftrightarrow> left = nullptr \<or> right = nullptr"
    by auto
  moreover have "nullptr \<in> set [child] \<longleftrightarrow> child = nullptr"
    by auto
  ultimately show ?thesis
    by (simp only: slots Unary_node_children Binary_node_children simp_thms)
qed

text \<open>
  Against C3 as it is written: an evaluation and an application constructed from null
  pointers are nodes like any other, with the null pointers in their child ranges.
\<close>

theorem C3_counterexample:
  "Node_children (Obj_Evaluation (Evaluation_impl nullptr)) = [nullptr]
   \<and> Node_children (Obj_Application (Application_impl nullptr nullptr)) = [nullptr, nullptr]
   \<and> Unary_child (Unary_node Evaluation nullptr) = nullptr
   \<and> Binary_left (Binary_node Application nullptr (Some 7)) = nullptr"
  by (simp add: impl_children Unary_child_def Binary_left_def Unary_node_def
      Binary_node_def)

text \<open>
  C7. Each concrete node carries, from its construction on, the kind tag of its class:
  \<open>Program_node\<close> for a program, \<open>Variable_node\<close> for a variable, and so on; the six
  tags differ from each other. The operations that change a node, \<^verbatim>\<open>add_node\<close> and
  \<^verbatim>\<open>add_statement\<close>, leave its kind as it is.
\<close>

theorem C7_kind_fixed_at_construction:
  "kind (Node_of (Obj_Program Program_impl)) = Program_node
   \<and> kind (Node_of (Obj_Variable (Variable_impl s))) = Variable_node
   \<and> kind (Node_of (Obj_Abstraction (Abstraction_impl v t))) = Abstraction_node
   \<and> kind (Node_of (Obj_Application (Application_impl f a))) = Application_node
   \<and> kind (Node_of (Obj_Definition (Definition_impl v t))) = Definition_node
   \<and> kind (Node_of (Obj_Evaluation (Evaluation_impl t))) = Evaluation_node
   \<and> distinct [Program_node, Variable_node, Abstraction_node, Application_node,
        Definition_node, Evaluation_node]
   \<and> kind (multi_base (add_node n node)) = kind (multi_base n)
   \<and> kind (Node_of (Obj_Program (add_statement p stmt))) = kind (Node_of (Obj_Program p))
   \<and> kind (Node_of (Obj_Program (foldl add_statement Program_impl stmts))) = Program_node"
  by (simp add: impl_kinds add_node_def add_statement_def multi_base_add_statements)

subsection \<open>Accessors\<close>

text \<open>
  C5. The accessors of a node built by a constructor of the implementation layer give
  back the arguments of the constructor: \<^verbatim>\<open>symbol()\<close> the symbol, and \<^verbatim>\<open>name()\<close> the
  spelling of the symbol when the symbol pointer points to a symbol; \<^verbatim>\<open>var()\<close> and
  \<^verbatim>\<open>term()\<close> of an abstraction, \<^verbatim>\<open>func()\<close> and \<^verbatim>\<open>arg()\<close> of an application; \<^verbatim>\<open>var()\<close>
  and \<^verbatim>\<open>def()\<close> of a definition and \<^verbatim>\<open>term()\<close> of an evaluation, which go through
  \<^verbatim>\<open>as\<close>, when the argument is what its declared type says: a \<^verbatim>\<open>Variable*\<close>,
  respectively a \<^verbatim>\<open>Term*\<close>.
\<close>

theorem C5_accessors_return_arguments:
  "Variable_impl_symbol (Variable_impl s) = s
   \<and> (syms sa = Some sy \<longrightarrow>
        Variable_impl_name syms (Variable_impl (Some sa)) = Inr (spelling sy))
   \<and> Abstraction_impl_var (Abstraction_impl v t) = v
   \<and> Abstraction_impl_term (Abstraction_impl v t) = t
   \<and> Application_impl_func (Application_impl f a) = f
   \<and> Application_impl_arg (Application_impl f a) = a
   \<and> (valid_ptr h C_Variable v \<longrightarrow> Definition_impl_var h (Definition_impl v t) = Inr v)
   \<and> (valid_ptr h C_Term t \<longrightarrow> Definition_impl_def h (Definition_impl v t) = Inr t)
   \<and> (valid_ptr h C_Term t \<longrightarrow> Evaluation_impl_term h (Evaluation_impl t) = Inr t)"
  by (auto simp: Variable_impl_symbol_def Variable_impl_def Variable_impl_name_def
      Abstraction_impl_var_def Abstraction_impl_term_def Abstraction_impl_def
      Application_impl_func_def Application_impl_arg_def Application_impl_def
      Definition_impl_var_def Definition_impl_def_def Definition_impl_def
      Evaluation_impl_term_def Evaluation_impl_def
      Binary_node_def Unary_node_def Binary_first_def Binary_second_def Unary_first_def
      valid_ptr_def as_def split: option.splits)

text \<open>
  In the example store the variable at 5 is a \<^verbatim>\<open>Variable*\<close>, the variable at 6 a
  \<^verbatim>\<open>Term*\<close>, and the symbol at 0 is spelled \<open>x\<close>.
\<close>

theorem C5_witness:
  "example_symbols 0 = Some \<lparr>spelling = ''x''\<rparr>
   \<and> Variable_impl_name example_symbols (Variable_impl (Some 0)) = Inr ''x''
   \<and> valid_ptr example_program C_Variable (Some 5)
   \<and> valid_ptr example_program C_Term (Some 6)
   \<and> Definition_impl_var example_program (Definition_impl (Some 5) (Some 6)) = Inr (Some 5)
   \<and> Definition_impl_def example_program (Definition_impl (Some 5) (Some 6)) = Inr (Some 6)
   \<and> Evaluation_impl_term example_program (Evaluation_impl (Some 6)) = Inr (Some 6)"
proof -
  have s: "example_symbols 0 = Some \<lparr>spelling = ''x''\<rparr>"
    by (simp add: example_symbols_def)
  have v: "valid_ptr example_program C_Variable (Some 5)"
    by (simp add: valid_ptr_def example_program_def derives_Variable_impl)
  have t: "valid_ptr example_program C_Term (Some 6)"
    by (simp add: valid_ptr_def example_program_def derives_Variable_impl)
  from s v t show ?thesis
    using C5_accessors_return_arguments [where syms = example_symbols and sa = 0
        and sy = "\<lparr>spelling = ''x''\<rparr>" and h = example_program and v = "Some 5"
        and t = "Some 6"]
    by simp
qed

text \<open>
  C8. On every binary node \<^verbatim>\<open>first()\<close> is the child that \<^verbatim>\<open>left()\<close> returns and
  \<^verbatim>\<open>second()\<close> the child that \<^verbatim>\<open>right()\<close> returns.
\<close>

theorem C8_positional_accessors_alias:
  "Binary_first n = Binary_left n \<and> Binary_second n = Binary_right n"
  by (simp add: Binary_first_def Binary_left_def Binary_second_def Binary_right_def)

subsection \<open>Growth of a Multi node\<close>

text \<open>
  C6. \<^verbatim>\<open>add_node\<close> puts the new element at the end of the child range. After any
  further appends the range is the old range followed by the appended elements, so the
  old range is a prefix of the new one. An empty program after three calls of
  \<^verbatim>\<open>add_statement\<close> has a \<^verbatim>\<open>statements()\<close> range of length three that holds the three
  arguments in the order of the calls.
\<close>

theorem C6_add_node_appends:
  "Multi_children (add_node n node) = Multi_children n @ [node]
   \<and> Multi_children (foldl add_node n later) = Multi_children n @ later
   \<and> take (length (Multi_children n)) (Multi_children (foldl add_node n later))
       = Multi_children n
   \<and> Node_range_elems
        (nodesN (add_statement (add_statement (add_statement Program_impl d1) d2) d3))
        (statements (add_statement (add_statement (add_statement Program_impl d1) d2) d3))
       = [d1, d2, d3]
   \<and> Node_range_end
        (statements (add_statement (add_statement (add_statement Program_impl d1) d2) d3))
       - Node_range_begin
        (statements (add_statement (add_statement (add_statement Program_impl d1) d2) d3))
       = 3"
  by (simp add: Multi_children_nodes nodesN_add_nodes add_node_def add_statement_def
      Node_range_elems_def statements_def Node_range_def Node_range_begin_def
      Node_range_end_def Multi_begin_def Multi_end_def Program_impl_def Multi_node_def
      range_elems_def upt_rec)

text \<open>
  C10. The range that \<^verbatim>\<open>statements()\<close> returns has the iterators of the virtual
  \<^verbatim>\<open>begin()\<close> and \<^verbatim>\<open>end()\<close> of the program; read over the program's child array it gives
  the elements of the generic child range, in the same order: all the children.
\<close>

theorem C10_statements_is_child_range:
  "Node_range_begin (statements p) = Node_begin (Obj_Program p)
   \<and> Node_range_end (statements p) = Node_end (Obj_Program p)
   \<and> Node_range_elems (Node_nodes (Obj_Program p)) (statements p)
       = Node_children (Obj_Program p)
   \<and> Node_range_elems (nodesN p) (statements p) = nodesN p"
  by (simp add: statements_def Node_range_def Node_range_begin_def Node_range_end_def
      Node_range_elems_def Node_children_def Multi_begin_def Multi_end_def range_elems_all)

subsection \<open>Default traversal\<close>




end
